theory Spec2Isabelle
  imports Complex_Main "HOL-Library.Word"
begin

section \<open>Solar system renderer (src/solarsystem.js)\<close>

text \<open>
  Conventions of the embedding.
  \<^item> A JavaScript number that holds a coordinate, an angle, a colour channel or a time is
    modelled as a \<^typ>\<open>real\<close>: \<open>Math.sin\<close>, \<open>Math.cos\<close> and \<open>Math.PI\<close> are
    \<^const>\<open>sin\<close>, \<^const>\<open>cos\<close> and \<^const>\<open>pi\<close>. The rounding of IEEE double arithmetic and
    of GLSL \<open>mediump float\<close> is not modelled. The one rounding the source asks for by name,
    the copy of the vertex data into a \<open>Float32Array\<close>, is modelled.
  \<^item> Loop counters and mesh indices are integers (\<^typ>\<open>int\<close>); a \<open>Uint16Array\<close>
    element is a \<^typ>\<open>16 word\<close>, and storing an integer in it reduces modulo \<open>2^16\<close>.
  \<^item> \<open>for (let i = 0; i <= n; i++)\<close> runs its body for \<open>i\<close> in \<open>[0..n]\<close>, and
    \<open>for (let i = 0; i < n; i++)\<close> for \<open>i\<close> in \<open>[0..n - 1]\<close>; the arrays the body
    pushes to are the accumulator of a \<^const>\<open>foldl\<close>.
\<close>

subsection \<open>Sphere geometry: \<open>createSphere\<close>\<close>

record mesh =
  positions :: "real list"
  normals :: "real list"
  indices :: "16 word list"

text \<open>
  Rounding to single precision, as \<open>Float32Array\<close> stores a number (and as \<open>Math.fround\<close>
  computes): the nearest value with a 24-bit significand, a tie going to the even
  significand. For \<open>2^e \<le> |v| < 2^(e+1)\<close> the candidates are the multiples of \<open>2^(e-23)\<close>;
  below \<open>2^-126\<close> (subnormal range) they are the multiples of \<open>2^-149\<close>. A magnitude of
  \<open>2^128 - 2^103\<close> or more becomes an infinity in the code; the model has no infinities, and
  the theorems that speak of stored values keep the radius below \<open>2^100\<close>.
\<close>

definition round_half_even :: "real \<Rightarrow> int" where
  "round_half_even v =
     (let f = \<lfloor>v\<rfloor>
      in if v - of_int f < 1 / 2 then f
         else if 1 / 2 < v - of_int f then f + 1
         else if even f then f else f + 1)"

definition fround :: "real \<Rightarrow> real" where
  "fround v =
     (if v = 0 then 0
      else let e = max \<lfloor>log 2 \<bar>v\<bar>\<rfloor> (- 126);
               ulp = 2 powr of_int (e - 23)
           in of_int (round_half_even (v / ulp)) * ulp)"

text \<open>\<open>new Float32Array(xs)\<close>: one element per entry, each rounded to single precision.\<close>

definition Float32Array :: "real list \<Rightarrow> real list" where
  "Float32Array xs = map fround xs"

text \<open>\<open>new Uint16Array(xs)\<close>: one element per entry, each reduced modulo \<open>2^16\<close>.\<close>

definition Uint16Array :: "int list \<Rightarrow> 16 word list" where
  "Uint16Array xs = map word_of_int xs"

text \<open>Body of the inner vertex loop (source lines 101-112): one push of three numbers to each array.\<close>

definition vertex_lon_body ::
  "real \<Rightarrow> int \<Rightarrow> real \<Rightarrow> real \<Rightarrow> real list \<times> real list \<Rightarrow> int \<Rightarrow> real list \<times> real list" where
  "vertex_lon_body radius segments sinTheta cosTheta acc lon =
     (let phi = of_int lon * 2 * pi / of_int segments;
          sinPhi = sin phi;
          cosPhi = cos phi;
          x = cosPhi * sinTheta;
          y = cosTheta;
          z = sinPhi * sinTheta
      in (fst acc @ [radius * x, radius * y, radius * z], snd acc @ [x, y, z]))"

text \<open>Body of the outer vertex loop (source lines 96-113).\<close>

definition vertex_lat_body ::
  "real \<Rightarrow> int \<Rightarrow> real list \<times> real list \<Rightarrow> int \<Rightarrow> real list \<times> real list" where
  "vertex_lat_body radius segments acc lat =
     (let theta = of_int lat * pi / of_int segments;
          sinTheta = sin theta;
          cosTheta = cos theta
      in foldl (vertex_lon_body radius segments sinTheta cosTheta) acc [0..segments])"

text \<open>Body of the inner index loop (source lines 116-122): two pushes of three indices.\<close>

definition index_lon_body :: "int \<Rightarrow> int \<Rightarrow> int list \<Rightarrow> int \<Rightarrow> int list" where
  "index_lon_body segments lat acc lon =
     (let first = lat * (segments + 1) + lon;
          second = first + segments + 1
      in (acc @ [first, second, first + 1]) @ [second, second + 1, first + 1])"

definition index_lat_body :: "int \<Rightarrow> int list \<Rightarrow> int \<Rightarrow> int list" where
  "index_lat_body segments acc lat = foldl (index_lon_body segments lat) acc [0..segments - 1]"

text \<open>The index array before it is copied into the \<open>Uint16Array\<close>.\<close>

definition sphere_index_list :: "int \<Rightarrow> int list" where
  "sphere_index_list segments = foldl (index_lat_body segments) [] [0..segments - 1]"

definition createSphere :: "real \<Rightarrow> int \<Rightarrow> mesh" where
  "createSphere radius segments =
     (let vs = foldl (vertex_lat_body radius segments) ([], []) [0..segments];
          is = sphere_index_list segments
      in \<lparr> positions = Float32Array (fst vs),
           normals = Float32Array (snd vs),
           indices = Uint16Array is \<rparr>)"

text \<open>Source line 128: the one mesh every body is drawn with.\<close>

definition sphere :: mesh where
  "sphere = createSphere 1 24"

text \<open>
  Closed forms of the loop bodies, used in the proofs: the six indices one iteration of the
  inner index loop pushes, and the three normal and position components one iteration of the
  inner vertex loop pushes.
\<close>

definition quad :: "int \<Rightarrow> int \<Rightarrow> int \<Rightarrow> int list" where
  "quad n lat lon = [lat * (n + 1) + lon, lat * (n + 1) + lon + n + 1, lat * (n + 1) + lon + 1,
     lat * (n + 1) + lon + n + 1, lat * (n + 1) + lon + n + 1 + 1, lat * (n + 1) + lon + 1]"

definition vertex_normal :: "int \<Rightarrow> int \<Rightarrow> int \<Rightarrow> real list" where
  "vertex_normal n lat lon =
     [cos (of_int lon * 2 * pi / of_int n) * sin (of_int lat * pi / of_int n),
      cos (of_int lat * pi / of_int n),
      sin (of_int lon * 2 * pi / of_int n) * sin (of_int lat * pi / of_int n)]"

definition vertex_position :: "real \<Rightarrow> int \<Rightarrow> int \<Rightarrow> int \<Rightarrow> real list" where
  "vertex_position r n lat lon = map (\<lambda>c. r * c) (vertex_normal n lat lon)"


subsection \<open>The matrix library: \<open>glMatrix.mat4\<close>\<close>

text \<open>
  A \<open>mat4\<close> is an array of 16 numbers in column-major order: entries 0..3 are the first
  column, and entries 12..14 the translation. The sixteen arguments of \<open>Mat4\<close> are the
  array entries 0 to 15, named \<open>a00 a01 a02 a03 a10 \<dots> a33\<close> as the library names them.
\<close>

datatype mat4 = Mat4 real real real real  real real real real  real real real real  real real real real

text \<open>
  Modelled from the spec: the library that provides \<open>mat4.create\<close> is not under src/
  (the source only takes \<open>mat4\<close> out of the global \<open>glMatrix\<close>, line 151).
  "start identity": a new matrix is the identity.
\<close>

definition create :: mat4 where
  "create = Mat4 1 0 0 0  0 1 0 0  0 0 1 0  0 0 0 1"

text \<open>
  Modelled from the spec: \<open>mat4.rotateY\<close> is not under src/. "rotate about Y by" an angle:
  the matrix is multiplied on the right by the rotation about the Y axis, so the rotation
  acts in the frame built so far; only columns 0 and 2 change. Called with \<open>out\<close> and
  \<open>a\<close> the same array, so the result replaces the argument.
\<close>

fun rotateY :: "mat4 \<Rightarrow> real \<Rightarrow> mat4" where
  "rotateY (Mat4 a00 a01 a02 a03  a10 a11 a12 a13  a20 a21 a22 a23  a30 a31 a32 a33) rad =
     (let s = sin rad; c = cos rad
      in Mat4 (a00 * c - a20 * s) (a01 * c - a21 * s) (a02 * c - a22 * s) (a03 * c - a23 * s)
              a10 a11 a12 a13
              (a00 * s + a20 * c) (a01 * s + a21 * c) (a02 * s + a22 * c) (a03 * s + a23 * c)
              a30 a31 a32 a33)"

text \<open>
  Modelled from the spec: \<open>mat4.rotateX\<close> is not under src/. "rotate by pitch about the
  local X axis": multiplication on the right by the rotation about X; only columns 1 and 2
  change.
\<close>

fun rotateX :: "mat4 \<Rightarrow> real \<Rightarrow> mat4" where
  "rotateX (Mat4 a00 a01 a02 a03  a10 a11 a12 a13  a20 a21 a22 a23  a30 a31 a32 a33) rad =
     (let s = sin rad; c = cos rad
      in Mat4 a00 a01 a02 a03
              (a10 * c + a20 * s) (a11 * c + a21 * s) (a12 * c + a22 * s) (a13 * c + a23 * s)
              (a20 * c - a10 * s) (a21 * c - a11 * s) (a22 * c - a12 * s) (a23 * c - a13 * s)
              a30 a31 a32 a33)"

text \<open>
  Modelled from the spec: \<open>mat4.translate\<close> is not under src/. "translate along local X by
  orbitDistance": multiplication on the right by a translation, so the offset is taken in
  the frame built so far; only the last column changes.
\<close>

fun translate :: "mat4 \<Rightarrow> real \<times> real \<times> real \<Rightarrow> mat4" where
  "translate (Mat4 a00 a01 a02 a03  a10 a11 a12 a13  a20 a21 a22 a23  a30 a31 a32 a33) (vx, vy, vz) =
     Mat4 a00 a01 a02 a03  a10 a11 a12 a13  a20 a21 a22 a23
          (a00 * vx + a10 * vy + a20 * vz + a30)
          (a01 * vx + a11 * vy + a21 * vz + a31)
          (a02 * vx + a12 * vy + a22 * vz + a32)
          (a03 * vx + a13 * vy + a23 * vz + a33)"

text \<open>
  Modelled from the spec: \<open>mat4.scale\<close> is not under src/. "scale uniformly by
  visualSize": multiplication on the right by a scaling; column \<open>i\<close> is multiplied by the
  \<open>i\<close>-th component, the last column is kept.
\<close>

fun scale :: "mat4 \<Rightarrow> real \<times> real \<times> real \<Rightarrow> mat4" where
  "scale (Mat4 a00 a01 a02 a03  a10 a11 a12 a13  a20 a21 a22 a23  a30 a31 a32 a33) (vx, vy, vz) =
     Mat4 (a00 * vx) (a01 * vx) (a02 * vx) (a03 * vx)
          (a10 * vy) (a11 * vy) (a12 * vy) (a13 * vy)
          (a20 * vz) (a21 * vz) (a22 * vz) (a23 * vz)
          a30 a31 a32 a33"

subsection \<open>The shading program\<close>

type_synonym vec3 = "real \<times> real \<times> real"
type_synonym vec4 = "real \<times> real \<times> real \<times> real"

text \<open>
  The GLSL operators and built-in functions the two shaders use, on exact reals:
  component-wise \<open>+\<close>, \<open>-\<close> and scalar \<open>*\<close>, \<open>dot\<close>, \<open>normalize\<close>, \<open>reflect\<close>, \<open>pow\<close>,
  the swizzles \<open>.xyz\<close> and \<open>.rgb\<close>, and the matrix-vector products.
  GLSL leaves \<open>normalize\<close> of the zero vector undefined; here it is the zero vector
  (division by zero is zero in HOL).
\<close>

fun vadd :: "vec3 \<Rightarrow> vec3 \<Rightarrow> vec3" where
  "vadd (a1, a2, a3) (b1, b2, b3) = (a1 + b1, a2 + b2, a3 + b3)"

fun vsub :: "vec3 \<Rightarrow> vec3 \<Rightarrow> vec3" where
  "vsub (a1, a2, a3) (b1, b2, b3) = (a1 - b1, a2 - b2, a3 - b3)"

fun vneg :: "vec3 \<Rightarrow> vec3" where
  "vneg (a1, a2, a3) = (- a1, - a2, - a3)"

fun vscale :: "real \<Rightarrow> vec3 \<Rightarrow> vec3" where
  "vscale k (a1, a2, a3) = (k * a1, k * a2, k * a3)"

fun dot :: "vec3 \<Rightarrow> vec3 \<Rightarrow> real" where
  "dot (a1, a2, a3) (b1, b2, b3) = a1 * b1 + a2 * b2 + a3 * b3"

definition normalize :: "vec3 \<Rightarrow> vec3" where
  "normalize v = vscale (1 / sqrt (dot v v)) v"

definition reflect :: "vec3 \<Rightarrow> vec3 \<Rightarrow> vec3" where
  "reflect i n = vsub i (vscale (2 * dot n i) n)"

definition pow :: "real \<Rightarrow> real \<Rightarrow> real" where
  "pow b e = b powr e"

fun xyz :: "vec4 \<Rightarrow> vec3" where
  "xyz (a1, a2, a3, a4) = (a1, a2, a3)"

fun vec4_of :: "vec3 \<Rightarrow> real \<Rightarrow> vec4" where
  "vec4_of (a1, a2, a3) a4 = (a1, a2, a3, a4)"

text \<open>\<open>m * v\<close> for a \<open>mat4\<close> uniform loaded without transposition (column-major).\<close>

fun mat4_mul_vec4 :: "mat4 \<Rightarrow> vec4 \<Rightarrow> vec4" where
  "mat4_mul_vec4 (Mat4 a00 a01 a02 a03  a10 a11 a12 a13  a20 a21 a22 a23  a30 a31 a32 a33) (v1, v2, v3, v4) =
     (a00 * v1 + a10 * v2 + a20 * v3 + a30 * v4,
      a01 * v1 + a11 * v2 + a21 * v3 + a31 * v4,
      a02 * v1 + a12 * v2 + a22 * v3 + a32 * v4,
      a03 * v1 + a13 * v2 + a23 * v3 + a33 * v4)"

text \<open>\<open>mat3(m) * v\<close>: the upper-left 3x3 block applied to a \<open>vec3\<close>.\<close>

fun mat3_mul_vec3 :: "mat4 \<Rightarrow> vec3 \<Rightarrow> vec3" where
  "mat3_mul_vec3 (Mat4 a00 a01 a02 a03  a10 a11 a12 a13  a20 a21 a22 a23  a30 a31 a32 a33) (v1, v2, v3) =
     (a00 * v1 + a10 * v2 + a20 * v3,
      a01 * v1 + a11 * v2 + a21 * v3,
      a02 * v1 + a12 * v2 + a22 * v3)"

text \<open>The vertex stage (source lines 22-27): its three outputs.\<close>

record vertex_out =
  vNormal :: vec3
  vFragPos :: vec3
  gl_Position :: vec4

definition vertex_main :: "mat4 \<Rightarrow> mat4 \<Rightarrow> mat4 \<Rightarrow> vec3 \<Rightarrow> vec3 \<Rightarrow> vertex_out" where
  "vertex_main uModelMatrix uViewMatrix uProjectionMatrix aPosition aNormal =
     (let worldPos = mat4_mul_vec4 uModelMatrix (vec4_of aPosition 1)
      in \<lparr> vNormal = mat3_mul_vec3 uModelMatrix aNormal,
           vFragPos = xyz worldPos,
           gl_Position = mat4_mul_vec4 uProjectionMatrix (mat4_mul_vec4 uViewMatrix worldPos) \<rparr>)"

text \<open>The fragment stage (source lines 40-55): the value written to \<open>gl_FragColor\<close>.\<close>

definition fragment_main :: "vec3 \<Rightarrow> vec3 \<Rightarrow> vec3 \<Rightarrow> vec3 \<Rightarrow> vec4 \<Rightarrow> vec4" where
  "fragment_main vNormal_in vFragPos_in uLightPos uViewPos uColor =
     (let norm = normalize vNormal_in;
          lightDir = normalize (vsub uLightPos vFragPos_in);
          diff = max (dot norm lightDir) 0;
          viewDir = normalize (vsub uViewPos vFragPos_in);
          reflectDir = reflect (vneg lightDir) norm;
          spec = pow (max (dot viewDir reflectDir) 0) 32;
          ambient = vscale 0.1 (xyz uColor);
          diffuse = vscale diff (xyz uColor);
          specular = vscale spec (1, 1, 1);
          result = vadd (vadd ambient diffuse) specular
      in vec4_of result 1)"

subsection \<open>Camera, keys and clock\<close>

record camera =
  x :: real
  y :: real
  z :: real
  pitch :: real
  yaw :: real

text \<open>
  The three global variables the handlers and \<open>render\<close> share (source lines 152, 153, 172).
  \<open>keys\<close> is an object used as a dictionary: a key that was never pressed is absent.
\<close>

record globals =
  camera :: camera
  keys :: "string \<rightharpoonup> bool"
  time :: real

definition initial_globals :: globals where
  "initial_globals = \<lparr> camera = \<lparr> x = 0, y = 2, z = 15, pitch = 0, yaw = 0 \<rparr>, keys = Map.empty, time = 0 \<rparr>"

text \<open>\<open>if (keys[k])\<close>: an absent entry reads \<open>undefined\<close>, which is falsy.\<close>

definition pressed :: "(string \<rightharpoonup> bool) \<Rightarrow> string \<Rightarrow> bool" where
  "pressed ks k = (case ks k of None \<Rightarrow> False | Some b \<Rightarrow> b)"

text \<open>\<open>String.prototype.toLowerCase\<close> on the ASCII letters (characters here are 8-bit).\<close>

definition toLowerCase :: "string \<Rightarrow> string" where
  "toLowerCase s =
     map (\<lambda>c. if 65 \<le> (of_char c :: nat) \<and> (of_char c :: nat) \<le> 90 then char_of (of_char c + (32 :: nat)) else c) s"

text \<open>
  The \<open>keydown\<close> and \<open>keyup\<close> listeners (source lines 155-156) write the global
  \<open>keys\<close>; the \<open>mousemove\<close> listener (lines 158-163) and \<open>resetCamera\<close> (line 165)
  write the global \<open>camera\<close>. Each is a function on the variable it writes.
\<close>

definition on_keydown :: "string \<Rightarrow> (string \<rightharpoonup> bool) \<Rightarrow> (string \<rightharpoonup> bool)" where
  "on_keydown key ks = ks(toLowerCase key \<mapsto> True)"

definition on_keyup :: "string \<Rightarrow> (string \<rightharpoonup> bool) \<Rightarrow> (string \<rightharpoonup> bool)" where
  "on_keyup key ks = ks(toLowerCase key \<mapsto> False)"

definition on_mousemove :: "int \<Rightarrow> real \<Rightarrow> real \<Rightarrow> camera \<Rightarrow> camera" where
  "on_mousemove buttons movementX movementY c =
     (if buttons = 1
      then c\<lparr> yaw := yaw c + movementX * 0.002, pitch := pitch c - movementY * 0.002 \<rparr>
      else c)"

text \<open>Source line 165: the global \<open>camera\<close> is replaced by a fresh object.\<close>

definition resetCamera :: "camera \<Rightarrow> camera" where
  "resetCamera c = \<lparr> x = 0, y = 2, z = 15, pitch = 0, yaw = 0 \<rparr>"

text \<open>
  The camera movement block of \<open>render\<close> (source lines 196-205), as a function of the
  global \<open>keys\<close> (only read) on the global \<open>camera\<close>. \<open>forward\<close> and \<open>right\<close> are read
  once, before any key is looked at; the seven \<open>if\<close> statements run in order.
\<close>

definition camera_movement :: "(string \<rightharpoonup> bool) \<Rightarrow> camera \<Rightarrow> camera" where
  "camera_movement ks c0 =
     (let speed = 0.2;
          forward = cos (yaw c0);
          right = sin (yaw c0);
          c = (if pressed ks ''w'' then c0\<lparr> x := x c0 + right * speed, z := z c0 - forward * speed \<rparr> else c0);
          c = (if pressed ks ''s'' then c\<lparr> x := x c - right * speed, z := z c + forward * speed \<rparr> else c);
          c = (if pressed ks ''a'' then c\<lparr> x := x c - forward * speed, z := z c - right * speed \<rparr> else c);
          c = (if pressed ks ''d'' then c\<lparr> x := x c + forward * speed, z := z c + right * speed \<rparr> else c);
          c = (if pressed ks ''q'' then c\<lparr> y := y c + speed \<rparr> else c);
          c = (if pressed ks ''e'' then c\<lparr> y := y c - speed \<rparr> else c);
          c = (if pressed ks ''r'' then resetCamera c else c)
      in c)"

subsection \<open>Drawing\<close>

text \<open>
  What one call of \<open>drawPlanet\<close> hands to the graphics context: the four uniforms it
  uploads and the element count of its \<open>drawElements\<close> call.
\<close>

record draw_call =
  uModelMatrix :: mat4
  uViewMatrix :: mat4
  uProjectionMatrix :: mat4
  uColor :: vec4
  count :: nat

text \<open>
  \<open>drawPlanet\<close> (source lines 175-188). The globals it reads are parameters here:
  \<open>projectionMatrix\<close>, a constant computed from the canvas size at start-up, and \<open>time\<close>.
\<close>

definition drawPlanet ::
  "mat4 \<Rightarrow> real \<Rightarrow> real \<Rightarrow> real \<Rightarrow> vec4 \<Rightarrow> real \<Rightarrow> real \<Rightarrow> mat4 \<Rightarrow> draw_call" where
  "drawPlanet projectionMatrix time_now distance size' color orbitSpeed rotationSpeed viewMatrix =
     (let model = create;
          model = rotateY model (time_now * orbitSpeed);
          model = translate model (distance, 0, 0);
          model = rotateY model (time_now * rotationSpeed);
          model = scale model (size', size', size')
      in \<lparr> uModelMatrix = model,
           uViewMatrix = viewMatrix,
           uProjectionMatrix = projectionMatrix,
           uColor = color,
           count = length (indices sphere) \<rparr>)"

text \<open>What one frame hands to the graphics context: the two light uniforms and the draws, in order.\<close>

record frame =
  uLightPos :: vec3
  uViewPos :: vec3
  draws :: "draw_call list"

text \<open>
  One call of \<open>render\<close> (source lines 190-225): the globals after it and the frame it draws.
  The call re-schedules itself with \<open>requestAnimationFrame\<close>; the next frame is the next call.
\<close>

definition render :: "mat4 \<Rightarrow> globals \<Rightarrow> globals \<times> frame" where
  "render projectionMatrix g0 =
     (let g = g0\<lparr> time := time g0 + 0.01 \<rparr>;
          g = g\<lparr> camera := camera_movement (keys g) (camera g) \<rparr>;
          view = create;
          view = rotateX view (pitch (camera g));
          view = rotateY view (yaw (camera g));
          view = translate view (- x (camera g), - y (camera g), - z (camera g));
          lightPos = (0, 0, 0);
          viewPos = (x (camera g), y (camera g), z (camera g))
      in (g, \<lparr> uLightPos = lightPos,
               uViewPos = viewPos,
               draws = [drawPlanet projectionMatrix (time g) 0 2.5 (1.0, 1.0, 0.0, 1.0) 0 0 view,
                        drawPlanet projectionMatrix (time g) 5 0.4 (0.7, 0.7, 0.7, 1.0) 1.2 3 view,
                        drawPlanet projectionMatrix (time g) 7 0.6 (0.9, 0.7, 0.3, 1.0) 1.0 2 view,
                        drawPlanet projectionMatrix (time g) 9 0.7 (0.2, 0.6, 1.0, 1.0) 0.8 2 view,
                        drawPlanet projectionMatrix (time g) 11 0.5 (1.0, 0.3, 0.3, 1.0) 0.7 2 view] \<rparr>))"

text \<open>The things that change the globals after start-up: the three listeners and the frame callback.\<close>

datatype event = KeyDown string | KeyUp string | MouseMove int real real | Frame

fun handle :: "mat4 \<Rightarrow> globals \<Rightarrow> event \<Rightarrow> globals" where
  "handle P g (KeyDown key) = g\<lparr> keys := on_keydown key (keys g) \<rparr>"
| "handle P g (KeyUp key) = g\<lparr> keys := on_keyup key (keys g) \<rparr>"
| "handle P g (MouseMove buttons movementX movementY) =
     g\<lparr> camera := on_mousemove buttons movementX movementY (camera g) \<rparr>"
| "handle P g Frame = fst (render P g)"

definition run_events :: "mat4 \<Rightarrow> event list \<Rightarrow> globals \<Rightarrow> globals" where
  "run_events P evs g = foldl (handle P) g evs"

text \<open>
  The keys the movement block looks at, and "exactly the keys in \<open>S\<close> are held" among
  them (other entries of \<open>keys\<close> do not matter to the block).
\<close>

definition movement_keys :: "string list" where
  "movement_keys = [''w'', ''s'', ''a'', ''d'', ''q'', ''e'', ''r'']"

definition only_held :: "(string \<rightharpoonup> bool) \<Rightarrow> string set \<Rightarrow> bool" where
  "only_held ks S = (\<forall>k \<in> set movement_keys. pressed ks k = (k \<in> S))"

subsection \<open>The body table and build order, as the specification words them\<close>

text \<open>
  A second description of what a frame draws, written from the specification rather than
  from \<open>render\<close>: the fixed table of five bodies and the order in which a body's model
  transform is built. The theorems compare \<open>render\<close> with it.
\<close>

record body =
  orbitDistance :: real
  visualSize :: real
  body_color :: vec4
  orbitAngularSpeed :: real
  selfRotationSpeed :: real

definition Sun :: body where
  "Sun = \<lparr> orbitDistance = 0, visualSize = 2.5, body_color = (1.0, 1.0, 0.0, 1.0),
           orbitAngularSpeed = 0, selfRotationSpeed = 0 \<rparr>"

definition Mercury :: body where
  "Mercury = \<lparr> orbitDistance = 5, visualSize = 0.4, body_color = (0.7, 0.7, 0.7, 1.0),
               orbitAngularSpeed = 1.2, selfRotationSpeed = 3 \<rparr>"

definition Venus :: body where
  "Venus = \<lparr> orbitDistance = 7, visualSize = 0.6, body_color = (0.9, 0.7, 0.3, 1.0),
             orbitAngularSpeed = 1.0, selfRotationSpeed = 2 \<rparr>"

definition Earth :: body where
  "Earth = \<lparr> orbitDistance = 9, visualSize = 0.7, body_color = (0.2, 0.6, 1.0, 1.0),
             orbitAngularSpeed = 0.8, selfRotationSpeed = 2 \<rparr>"

definition Mars :: body where
  "Mars = \<lparr> orbitDistance = 11, visualSize = 0.5, body_color = (1.0, 0.3, 0.3, 1.0),
            orbitAngularSpeed = 0.7, selfRotationSpeed = 2 \<rparr>"

text \<open>
  "start identity, rotate about Y by time * orbitAngularSpeed, translate along local X by
  orbitDistance, rotate about Y by time * selfRotationSpeed, scale uniformly by visualSize".
\<close>

definition body_transform :: "real \<Rightarrow> body \<Rightarrow> mat4" where
  "body_transform t b =
     scale (rotateY (translate (rotateY create (t * orbitAngularSpeed b)) (orbitDistance b, 0, 0))
                    (t * selfRotationSpeed b))
           (visualSize b, visualSize b, visualSize b)"

text \<open>The last column of a matrix: where it sends the local origin.\<close>

fun translation :: "mat4 \<Rightarrow> vec3" where
  "translation (Mat4 a00 a01 a02 a03  a10 a11 a12 a13  a20 a21 a22 a23  a30 a31 a32 a33) = (a30, a31, a32)"

text \<open>Euclidean length of a \<open>vec3\<close>.\<close>

definition vlength :: "vec3 \<Rightarrow> real" where
  "vlength v = sqrt (dot v v)"

subsection \<open>Start-up: the top-level script and the graphics context\<close>

text \<open>
  The top-level statements of the file run once, in order, and stop at the first uncaught
  exception. What the script does to the outside world is recorded as a list of effects.
  \<open>canvas.getContext("webgl")\<close> is an input: \<open>None\<close> when it returns \<open>null\<close>, otherwise the
  context object, of which the model only needs to know which methods it has.
  A member access on \<open>null\<close> throws a \<open>TypeError\<close>; so does calling a method the object
  does not have. Reading a constant such as \<open>gl.ARRAY_BUFFER\<close> from an object has no effect
  and is listed only where it is the first use of \<open>gl\<close> in its statement.
\<close>

datatype js_error = TypeError

datatype effect =
    Alert string
  | CanvasResize
  | GL string
  | ConsoleError
  | AddEventListener string
  | RequestAnimationFrame

type_synonym gl_context = "string \<Rightarrow> bool"

datatype stmt = Host effect | Read string | Call string

fun exec :: "gl_context option \<Rightarrow> stmt list \<Rightarrow> effect list \<Rightarrow> effect list \<times> js_error option" where
  "exec gl [] tr = (tr, None)"
| "exec gl (Host e # ss) tr = exec gl ss (tr @ [e])"
| "exec gl (Read c # ss) tr =
     (case gl of None \<Rightarrow> (tr, Some TypeError) | Some ctx \<Rightarrow> exec gl ss tr)"
| "exec gl (Call m # ss) tr =
     (case gl of
        None \<Rightarrow> (tr, Some TypeError)
      | Some ctx \<Rightarrow> if ctx m then exec gl ss (tr @ [GL m]) else (tr, Some TypeError))"

text \<open>
  \<open>compileShader\<close> (source lines 59-66); \<open>compiled\<close> is what the context reports as
  \<open>COMPILE_STATUS\<close>.
\<close>

definition compileShader :: "bool \<Rightarrow> stmt list" where
  "compileShader compiled =
     [Call ''createShader'', Call ''shaderSource'', Call ''compileShader'', Call ''getShaderParameter'']
     @ (if compiled then [] else [Call ''getShaderInfoLog'', Host ConsoleError])"

text \<open>The graphics calls of one \<open>drawPlanet\<close> (source lines 182-187) and of one \<open>render\<close> (190-225).\<close>

definition drawPlanet_calls :: "stmt list" where
  "drawPlanet_calls =
     [Call ''uniformMatrix4fv'', Call ''uniformMatrix4fv'', Call ''uniformMatrix4fv'',
      Call ''uniform4fv'', Call ''drawElements'']"

definition render_calls :: "stmt list" where
  "render_calls =
     [Call ''clearColor'', Call ''clear'', Call ''uniform3fv'', Call ''uniform3fv'']
     @ drawPlanet_calls @ drawPlanet_calls @ drawPlanet_calls @ drawPlanet_calls @ drawPlanet_calls
     @ [Host RequestAnimationFrame]"

text \<open>The whole file, top to bottom (source lines 4-226).\<close>

definition script :: "gl_context option \<Rightarrow> bool \<Rightarrow> bool \<Rightarrow> stmt list" where
  "script gl vs_compiled fs_compiled =
     (if gl = None then [Host (Alert ''WebGL not supported.'')] else [])
     @ [Host CanvasResize, Host CanvasResize]
     @ [Read ''VERTEX_SHADER''] @ compileShader vs_compiled
     @ [Read ''FRAGMENT_SHADER''] @ compileShader fs_compiled
     @ [Call ''createProgram'', Call ''attachShader'', Call ''attachShader'',
        Call ''linkProgram'', Call ''useProgram'']
     @ [Call ''getAttribLocation'', Call ''getAttribLocation'']
     @ [Call ''getUniformLocation'', Call ''getUniformLocation'', Call ''getUniformLocation'',
        Call ''getUniformLocation'', Call ''getUniformLocation'', Call ''getUniformLocation'']
     @ [Call ''createVertexArray'', Call ''bindVertexArray'']
     @ [Call ''createBuffer'', Call ''bindBuffer'', Call ''bufferData'',
        Call ''enableVertexAttribArray'', Call ''vertexAttribPointer'']
     @ [Call ''createBuffer'', Call ''bindBuffer'', Call ''bufferData'',
        Call ''enableVertexAttribArray'', Call ''vertexAttribPointer'']
     @ [Call ''createBuffer'', Call ''bindBuffer'', Call ''bufferData'']
     @ [Host (AddEventListener ''keydown''), Host (AddEventListener ''keyup''),
        Host (AddEventListener ''mousemove'')]
     @ [Call ''enable'']
     @ render_calls"

definition startup :: "gl_context option \<Rightarrow> bool \<Rightarrow> bool \<Rightarrow> effect list \<times> js_error option" where
  "startup gl vs_compiled fs_compiled = exec gl (script gl vs_compiled fs_compiled) []"

text \<open>An effect that reaches the graphics context, or that lets code run later.\<close>

fun rendering_effect :: "effect \<Rightarrow> bool" where
  "rendering_effect (GL m) = True"
| "rendering_effect RequestAnimationFrame = True"
| "rendering_effect (AddEventListener n) = True"
| "rendering_effect e = False"

section \<open>Properties of the sphere mesh\<close>

subsection \<open>The loops as concatenations\<close>

lemma foldl_append_concat:
  "foldl (\<lambda>acc x. acc @ f x) acc xs = acc @ concat (map f xs)"
  by (induction xs arbitrary: acc) simp_all

lemma index_lon_body_eq: "index_lon_body n lat = (\<lambda>acc lon. acc @ quad n lat lon)"
  by (simp add: index_lon_body_def quad_def Let_def fun_eq_iff)

lemma index_lat_body_eq:
  "index_lat_body n = (\<lambda>acc lat. acc @ concat (map (quad n lat) [0..n - 1]))"
  by (simp add: index_lat_body_def index_lon_body_eq foldl_append_concat fun_eq_iff)

lemma sphere_index_list_eq:
  "sphere_index_list n = concat (map (\<lambda>lat. concat (map (quad n lat) [0..n - 1])) [0..n - 1])"
  by (simp add: sphere_index_list_def index_lat_body_eq foldl_append_concat)

lemma length_concat_uniform:
  "(\<And>x. x \<in> set xs \<Longrightarrow> length (f x) = m) \<Longrightarrow> length (concat (map f xs)) = length xs * m"
  by (induction xs) simp_all


lemma length_sphere_index_list: "length (sphere_index_list n) = nat n * (nat n * 6)"
proof -
  have inner: "length (concat (map (quad n lat) [0..n - 1])) = nat n * 6" for lat
    by (subst length_concat_uniform [where m = 6]) (simp_all add: quad_def)
  show ?thesis
    unfolding sphere_index_list_eq
    by (subst length_concat_uniform [where m = "nat n * 6"]) (simp_all add: inner)
qed

lemma quad_bounds:
  assumes "0 \<le> lat" "lat \<le> n - 1" "0 \<le> lon" "lon \<le> n - 1" "i \<in> set (quad n lat lon)"
  shows "0 \<le> i \<and> i < (n + 1)\<^sup>2"
proof -
  have "lat * (n + 1) \<le> (n - 1) * (n + 1)"
    using assms by (intro mult_right_mono) simp_all
  then have ub: "lat * (n + 1) + lon + n + 2 < (n + 1)\<^sup>2"
    using assms by (simp add: power2_eq_square algebra_simps)
  have lb: "0 \<le> lat * (n + 1)" using assms by simp
  from assms(5) ub lb assms(1-4) show ?thesis
    by (auto simp: quad_def)
qed

lemma sphere_index_list_bounds:
  assumes "i \<in> set (sphere_index_list n)"
  shows "0 \<le> i \<and> i < (n + 1)\<^sup>2"
proof -
  from assms obtain lat lon where "lat \<in> {0..n - 1}" "lon \<in> {0..n - 1}" "i \<in> set (quad n lat lon)"
    by (auto simp: sphere_index_list_eq)
  then show ?thesis using quad_bounds [of lat n lon i] by simp
qed

lemma foldl_pair_append_concat:
  "foldl (\<lambda>acc x. (fst acc @ f x, snd acc @ g x)) acc xs =
     (fst acc @ concat (map f xs), snd acc @ concat (map g xs))"
  by (induction xs arbitrary: acc) simp_all

lemma vertex_lon_body_eq:
  "vertex_lon_body r n (sin (of_int lat * pi / of_int n)) (cos (of_int lat * pi / of_int n)) =
     (\<lambda>acc lon. (fst acc @ vertex_position r n lat lon, snd acc @ vertex_normal n lat lon))"
  by (simp add: vertex_lon_body_def vertex_position_def vertex_normal_def Let_def fun_eq_iff)

lemma vertex_lat_body_eq:
  "vertex_lat_body r n =
     (\<lambda>acc lat. (fst acc @ concat (map (vertex_position r n lat) [0..n]),
                 snd acc @ concat (map (vertex_normal n lat) [0..n])))"
  by (simp add: vertex_lat_body_def Let_def vertex_lon_body_eq foldl_pair_append_concat fun_eq_iff)

lemma positions_createSphere:
  "positions (createSphere r n) =
     map fround (concat (map (\<lambda>lat. concat (map (vertex_position r n lat) [0..n])) [0..n]))"
  by (simp add: createSphere_def Let_def Float32Array_def vertex_lat_body_eq foldl_pair_append_concat)

lemma normals_createSphere:
  "normals (createSphere r n) =
     map fround (concat (map (\<lambda>lat. concat (map (vertex_normal n lat) [0..n])) [0..n]))"
  by (simp add: createSphere_def Let_def Float32Array_def vertex_lat_body_eq foldl_pair_append_concat)

lemma indices_createSphere: "indices (createSphere r n) = map word_of_int (sphere_index_list n)"
  by (simp add: createSphere_def Let_def Uint16Array_def)

lemma length_vertex_row: "length (concat (map (vertex_position r n lat) [0..n])) = nat (n + 1) * 3"
  by (subst length_concat_uniform [where m = 3]) (simp_all add: vertex_position_def vertex_normal_def)

lemma length_normal_row: "length (concat (map (vertex_normal n lat) [0..n])) = nat (n + 1) * 3"
  by (subst length_concat_uniform [where m = 3]) (simp_all add: vertex_normal_def)

lemma length_positions: "length (positions (createSphere r n)) = nat (n + 1) * (nat (n + 1) * 3)"
  unfolding positions_createSphere length_map
  by (subst length_concat_uniform [where m = "nat (n + 1) * 3"]) (simp_all add: length_vertex_row)

lemma length_normals: "length (normals (createSphere r n)) = nat (n + 1) * (nat (n + 1) * 3)"
  unfolding normals_createSphere length_map
  by (subst length_concat_uniform [where m = "nat (n + 1) * 3"]) (simp_all add: length_normal_row)

lemma uint16_index_bound:
  assumes "w \<in> set (indices (createSphere r n))"
  shows "uint w < (n + 1)\<^sup>2"
proof -
  from assms obtain i where i: "i \<in> set (sphere_index_list n)" and w: "w = word_of_int i"
    by (auto simp: indices_createSphere)
  have b: "0 \<le> i \<and> i < (n + 1)\<^sup>2" using i by (rule sphere_index_list_bounds)
  show ?thesis
  proof (cases "(n + 1)\<^sup>2 \<le> 65536")
    case True
    then have "uint w = i" using b w by (simp add: uint_word_of_int take_bit_int_eq_self)
    then show ?thesis using b by simp
  next
    case False
    have "uint w < 2 ^ 16" using uint_bounded [of w] by simp
    then show ?thesis using False by simp
  qed
qed

text \<open>
  C2. For every integer \<open>segments = n \<ge> 1\<close> (and any radius) the mesh returned by
  \<open>createSphere\<close> has \<open>(n+1)\<^sup>2\<close> vertices, that is \<open>3 * (n+1)\<^sup>2\<close> numbers in the flat
  position array and as many in the normal array; its index array has \<open>6 * n\<^sup>2\<close> entries;
  and every entry of the index array, read as an unsigned 16-bit number, is strictly less
  than \<open>(n+1)\<^sup>2\<close>.
\<close>

theorem createSphere_counts:
  assumes "1 \<le> n"
  shows "length (positions (createSphere r n)) = 3 * nat ((n + 1)\<^sup>2)
       \<and> length (normals (createSphere r n)) = 3 * nat ((n + 1)\<^sup>2)
       \<and> length (indices (createSphere r n)) = nat (6 * n\<^sup>2)
       \<and> (\<forall>w \<in> set (indices (createSphere r n)). uint w < (n + 1)\<^sup>2)"
proof -
  have sq: "nat (n + 1) * nat (n + 1) = nat ((n + 1)\<^sup>2)"
    using assms by (simp add: power2_eq_square nat_mult_distrib)
  have sq': "nat n * nat n * 6 = nat (6 * n\<^sup>2)"
    using assms by (simp add: power2_eq_square nat_mult_distrib)
  have "length (positions (createSphere r n)) = 3 * nat ((n + 1)\<^sup>2)"
    using sq by (simp add: length_positions)
  moreover have "length (normals (createSphere r n)) = 3 * nat ((n + 1)\<^sup>2)"
    using sq by (simp add: length_normals)
  moreover have "length (indices (createSphere r n)) = nat (6 * n\<^sup>2)"
    using sq' by (simp add: indices_createSphere length_sphere_index_list)
  moreover have "\<forall>w \<in> set (indices (createSphere r n)). uint w < (n + 1)\<^sup>2"
    using uint16_index_bound by blast
  ultimately show ?thesis by blast
qed

lemma sphere_index_list_1: "sphere_index_list 1 = [0, 2, 1, 2, 3, 1]"
  by (simp add: sphere_index_list_def index_lat_body_def index_lon_body_def Let_def)

theorem createSphere_counts_witness:
  "(1::int) \<le> 1
   \<and> length (positions (createSphere 1 1)) = 12
   \<and> length (normals (createSphere 1 1)) = 12
   \<and> length (indices (createSphere 1 1)) = 6
   \<and> indices (createSphere 1 1) ! 4 = 3
   \<and> uint (indices (createSphere 1 1) ! 4) < 4"
proof -
  have ix: "indices (createSphere 1 1) = [0, 2, 1, 2, 3, 1]"
    by (simp add: indices_createSphere sphere_index_list_1)
  then have mem: "indices (createSphere 1 1) ! 4 \<in> set (indices (createSphere 1 1))"
    by simp
  from createSphere_counts [of 1 1] mem
  have "uint (indices (createSphere 1 1) ! 4) < 4" by simp
  then show ?thesis
    using createSphere_counts [of 1 1] ix by simp
qed

subsection \<open>Rounding to single precision\<close>












text \<open>Checks of the rounding: exact values stay, ties go to the even significand, signs are symmetric.\<close>

lemma fround_ties:
  "fround 16777217 = 16777216" "fround 16777219 = 16777220" "fround (- 33554433) = - 33554432"
proof -
  have e24: "\<lfloor>log 2 (16777217 :: real)\<rfloor> = 24" "\<lfloor>log 2 (16777219 :: real)\<rfloor> = 24"
    by (subst floor_log_eq_powr_iff; simp)+
  have e25: "\<lfloor>log 2 (33554433 :: real)\<rfloor> = 25"
    by (subst floor_log_eq_powr_iff) simp_all
  have f1: "\<lfloor>16777217 / 2 :: real\<rfloor> = 8388608" by (simp add: floor_eq_iff)
  have f2: "\<lfloor>16777219 / 2 :: real\<rfloor> = 8388609" by (simp add: floor_eq_iff)
  have f3: "\<lfloor>- (33554433 / 4) :: real\<rfloor> = - 8388609" by (simp add: floor_eq_iff)
  show "fround 16777217 = 16777216"
    using e24 f1 by (simp add: fround_def Let_def round_half_even_def)
  show "fround 16777219 = 16777220"
    using e24 f2 by (simp add: fround_def Let_def round_half_even_def)
  show "fround (- 33554433) = - 33554432"
    using e25 f3 by (simp add: fround_def Let_def round_half_even_def)
qed

subsection \<open>Where a vertex is stored\<close>






subsection \<open>How far the stored vertex is from the sphere\<close>













subsection \<open>The 16-bit index buffer\<close>

lemma uint16_roundtrip:
  assumes "(n + 1)\<^sup>2 \<le> 65536"
  shows "map uint (indices (createSphere r n)) = sphere_index_list n"
proof -
  have "uint (word_of_int i :: 16 word) = i" if "i \<in> set (sphere_index_list n)" for i
  proof -
    have "0 \<le> i \<and> i < (n + 1)\<^sup>2" using that by (rule sphere_index_list_bounds)
    then show ?thesis using assms by (simp add: uint_word_of_int take_bit_int_eq_self)
  qed
  then have "map (\<lambda>i. uint (word_of_int i :: 16 word)) (sphere_index_list n) = sphere_index_list n"
    by (simp add: map_idI)
  then show ?thesis by (simp add: indices_createSphere comp_def)
qed

lemma last_index_mem:
  assumes "1 \<le> n"
  shows "(n + 1)\<^sup>2 - 1 \<in> set (sphere_index_list n)"
proof -
  have "(n - 1) * (n + 1) + (n - 1) + n + 1 + 1 = (n + 1)\<^sup>2 - 1"
    by (simp add: power2_eq_square algebra_simps)
  then have "(n + 1)\<^sup>2 - 1 \<in> set (quad n (n - 1) (n - 1))"
    by (simp add: quad_def)
  moreover have "n - 1 \<in> {0..n - 1}" using assms by simp
  ultimately have "\<exists>lat\<in>{0..n - 1}. \<exists>lon\<in>{0..n - 1}. (n + 1)\<^sup>2 - 1 \<in> set (quad n lat lon)"
    by blast
  then show ?thesis
    by (simp add: sphere_index_list_eq)
qed

lemma Max_sphere_index_list:
  assumes "1 \<le> n"
  shows "Max (set (sphere_index_list n)) = (n + 1)\<^sup>2 - 1"
proof (rule Max_eqI)
  show "finite (set (sphere_index_list n))" by simp
  show "y \<le> (n + 1)\<^sup>2 - 1" if "y \<in> set (sphere_index_list n)" for y
    using sphere_index_list_bounds [OF that] by simp
  show "(n + 1)\<^sup>2 - 1 \<in> set (sphere_index_list n)" using assms by (rule last_index_mem)
qed

text \<open>
  C9. For every integer \<open>segments = n\<close> with \<open>(n+1)\<^sup>2 \<le> 65536\<close>, every element of the
  \<open>Uint16Array\<close> index buffer of \<open>createSphere r n\<close> equals the index the loops generated
  (no reduction modulo \<open>2^16\<close> takes effect). In particular this holds for the mesh in use,
  \<open>createSphere 1 24\<close>, whose largest generated index is \<open>624\<close>.
\<close>

theorem uint16_indices_exact:
  "((n + 1)\<^sup>2 \<le> 65536 \<longrightarrow> map uint (indices (createSphere r n)) = sphere_index_list n)
   \<and> map uint (indices sphere) = sphere_index_list 24
   \<and> Max (set (sphere_index_list 24)) = 624"
proof -
  have small: "((24::int) + 1)\<^sup>2 \<le> 65536" by simp
  have a: "map uint (indices sphere) = sphere_index_list 24"
    unfolding sphere_def using small by (rule uint16_roundtrip)
  have "((24::int) + 1)\<^sup>2 - 1 = 624" by simp
  then have b: "Max (set (sphere_index_list 24)) = 624"
    using Max_sphere_index_list [of 24] by (simp only: one_le_numeral)
  have c: "(n + 1)\<^sup>2 \<le> 65536 \<longrightarrow> map uint (indices (createSphere r n)) = sphere_index_list n"
    using uint16_roundtrip by blast
  from a b c show ?thesis by (intro conjI)
qed

theorem uint16_indices_exact_witness:
  "((1::int) + 1)\<^sup>2 \<le> 65536 \<and> map uint (indices (createSphere 1 1)) = [0, 2, 1, 2, 3, 1]"
  using uint16_indices_exact [of 1 1]
  by (simp add: sphere_index_list_1)

section \<open>Properties of the camera\<close>

lemma camera_movement_reset:
  "pressed ks ''r'' \<Longrightarrow> camera_movement ks c = \<lparr> x = 0, y = 2, z = 15, pitch = 0, yaw = 0 \<rparr>"
  by (simp add: camera_movement_def resetCamera_def Let_def)

lemma camera_render: "camera (fst (render P g)) = camera_movement (keys g) (camera g)"
  by (simp add: render_def Let_def)

lemma camera_movement_only_w:
  assumes "yaw c = 0" "only_held ks {''w''}"
  shows "camera_movement ks c = c\<lparr> z := z c - 0.2 \<rparr>"
  using assms by (simp add: camera_movement_def only_held_def movement_keys_def Let_def)

lemma camera_movement_only_d:
  assumes "yaw c = 0" "only_held ks {''d''}"
  shows "camera_movement ks c = c\<lparr> x := x c + 0.2 \<rparr>"
  using assms by (simp add: camera_movement_def only_held_def movement_keys_def Let_def)

lemma camera_movement_w_and_d:
  assumes "yaw c = 0" "only_held ks {''w'', ''d''}"
  shows "camera_movement ks c = c\<lparr> x := x c + 0.2, z := z c - 0.2 \<rparr>"
  using assms by (simp add: camera_movement_def only_held_def movement_keys_def Let_def)

text \<open>
  C5. At yaw 0, a frame in which only \<open>w\<close> is held changes \<open>camera.z\<close> by \<open>-0.2\<close> and leaves
  \<open>camera.x\<close> (and every other field) unchanged; a frame in which only \<open>d\<close> is held changes
  \<open>camera.x\<close> by \<open>+0.2\<close> and nothing else; and a frame in which \<open>w\<close> and \<open>d\<close> are both held
  moves the camera by the sum of the two, \<open>(0.2, 0, -0.2)\<close>, with no normalisation of the
  diagonal step. (Exact real arithmetic.)
\<close>

theorem w_and_d_steps:
  assumes "yaw (camera g) = 0"
  shows "(only_held (keys g) {''w''} \<longrightarrow>
            camera (fst (render P g)) = (camera g)\<lparr> z := z (camera g) - 0.2 \<rparr>)
       \<and> (only_held (keys g) {''d''} \<longrightarrow>
            camera (fst (render P g)) = (camera g)\<lparr> x := x (camera g) + 0.2 \<rparr>)
       \<and> (only_held (keys g) {''w'', ''d''} \<longrightarrow>
            camera (fst (render P g)) = (camera g)\<lparr> x := x (camera g) + 0.2, z := z (camera g) - 0.2 \<rparr>)"
  using assms camera_movement_only_w [of "camera g" "keys g"]
    camera_movement_only_d [of "camera g" "keys g"]
    camera_movement_w_and_d [of "camera g" "keys g"]
  by (simp add: camera_render)

theorem w_and_d_steps_witness:
  "yaw (camera initial_globals) = 0
   \<and> only_held [''w'' \<mapsto> True] {''w''}
   \<and> only_held [''d'' \<mapsto> True, ''w'' \<mapsto> False] {''d''}
   \<and> only_held [''w'' \<mapsto> True, ''d'' \<mapsto> True] {''w'', ''d''}
   \<and> camera (fst (render create (initial_globals\<lparr> keys := [''w'' \<mapsto> True] \<rparr>)))
       = \<lparr> x = 0, y = 2, z = 14.8, pitch = 0, yaw = 0 \<rparr>
   \<and> camera (fst (render create (initial_globals\<lparr> keys := [''d'' \<mapsto> True, ''w'' \<mapsto> False] \<rparr>)))
       = \<lparr> x = 0.2, y = 2, z = 15, pitch = 0, yaw = 0 \<rparr>
   \<and> camera (fst (render create (initial_globals\<lparr> keys := [''w'' \<mapsto> True, ''d'' \<mapsto> True] \<rparr>)))
       = \<lparr> x = 0.2, y = 2, z = 14.8, pitch = 0, yaw = 0 \<rparr>"
proof -
  have y0: "yaw (camera initial_globals) = 0"
    by (simp add: initial_globals_def)
  have hw: "only_held [''w'' \<mapsto> True] {''w''}"
    by (simp add: only_held_def movement_keys_def pressed_def)
  have hd: "only_held [''d'' \<mapsto> True, ''w'' \<mapsto> False] {''d''}"
    by (simp add: only_held_def movement_keys_def pressed_def)
  have hwd: "only_held [''w'' \<mapsto> True, ''d'' \<mapsto> True] {''w'', ''d''}"
    by (simp add: only_held_def movement_keys_def pressed_def)
  have a: "camera (fst (render create (initial_globals\<lparr> keys := [''w'' \<mapsto> True] \<rparr>)))
       = \<lparr> x = 0, y = 2, z = 14.8, pitch = 0, yaw = 0 \<rparr>"
    using w_and_d_steps [of "initial_globals\<lparr> keys := [''w'' \<mapsto> True] \<rparr>" create] hw
    by (simp add: initial_globals_def)
  have b: "camera (fst (render create (initial_globals\<lparr> keys := [''d'' \<mapsto> True, ''w'' \<mapsto> False] \<rparr>)))
       = \<lparr> x = 0.2, y = 2, z = 15, pitch = 0, yaw = 0 \<rparr>"
    using w_and_d_steps [of "initial_globals\<lparr> keys := [''d'' \<mapsto> True, ''w'' \<mapsto> False] \<rparr>" create] hd
    by (simp add: initial_globals_def)
  have c: "camera (fst (render create (initial_globals\<lparr> keys := [''w'' \<mapsto> True, ''d'' \<mapsto> True] \<rparr>)))
       = \<lparr> x = 0.2, y = 2, z = 14.8, pitch = 0, yaw = 0 \<rparr>"
    using w_and_d_steps [of "initial_globals\<lparr> keys := [''w'' \<mapsto> True, ''d'' \<mapsto> True] \<rparr>" create] hwd
    by (simp add: initial_globals_def)
  from y0 hw hd hwd a b c show ?thesis by (intro conjI)
qed

text \<open>
  C10. If \<open>r\<close> is held during a frame, the camera at the end of that frame's update is the
  default \<open>{x: 0, y: 2, z: 15, pitch: 0, yaw: 0}\<close>, whatever the camera was before and
  whichever other keys are held: the reset is the last of the seven \<open>if\<close> statements.
\<close>

theorem reset_wins:
  "pressed (keys g) ''r'' \<Longrightarrow> camera (fst (render P g)) = \<lparr> x = 0, y = 2, z = 15, pitch = 0, yaw = 0 \<rparr>"
  by (simp add: camera_render camera_movement_reset)

theorem reset_wins_witness:
  "pressed (keys (initial_globals\<lparr> camera := \<lparr> x = 3, y = 4, z = 5, pitch = 1, yaw = 2 \<rparr>,
                                    keys := [''r'' \<mapsto> True, ''w'' \<mapsto> True, ''q'' \<mapsto> True] \<rparr>)) ''r''
   \<and> camera (fst (render create (initial_globals\<lparr> camera := \<lparr> x = 3, y = 4, z = 5, pitch = 1, yaw = 2 \<rparr>,
                                    keys := [''r'' \<mapsto> True, ''w'' \<mapsto> True, ''q'' \<mapsto> True] \<rparr>)))
       = \<lparr> x = 0, y = 2, z = 15, pitch = 0, yaw = 0 \<rparr>"
  using reset_wins [of "initial_globals\<lparr> camera := \<lparr> x = 3, y = 4, z = 5, pitch = 1, yaw = 2 \<rparr>,
                                    keys := [''r'' \<mapsto> True, ''w'' \<mapsto> True, ''q'' \<mapsto> True] \<rparr>" create]
  by (simp add: pressed_def)

lemma toLowerCase_r: "toLowerCase ''r'' = ''r''"
  by (simp add: toLowerCase_def)

text \<open>
  C6. From any state of the globals, after any sequence of key, mouse and frame events,
  \<open>resetCamera\<close> leaves the camera at position \<open>(0, 2, 15)\<close> with yaw and pitch 0; and so
  does pressing \<open>r\<close> and letting the next frame run.
\<close>

theorem reset_restores_default:
  "resetCamera (camera (run_events P evs g)) = \<lparr> x = 0, y = 2, z = 15, pitch = 0, yaw = 0 \<rparr>
   \<and> camera (run_events P (evs @ [KeyDown ''r'', Frame]) g) = \<lparr> x = 0, y = 2, z = 15, pitch = 0, yaw = 0 \<rparr>"
proof -
  let ?g = "run_events P evs g"
  have "pressed (on_keydown ''r'' (keys ?g)) ''r''"
    by (simp add: on_keydown_def pressed_def toLowerCase_r)
  then have "camera (fst (render P (?g\<lparr> keys := on_keydown ''r'' (keys ?g) \<rparr>)))
               = \<lparr> x = 0, y = 2, z = 15, pitch = 0, yaw = 0 \<rparr>"
    by (simp add: camera_render camera_movement_reset)
  then show ?thesis
    by (simp add: run_events_def resetCamera_def)
qed

section \<open>Properties of the model transforms\<close>

lemma model_matrix:
  "uModelMatrix (drawPlanet P t D sz col S R V) =
     scale (rotateY (translate (rotateY create (t * S)) (D, 0, 0)) (t * R)) (sz, sz, sz)"
  by (simp add: drawPlanet_def Let_def)

lemma translation_scale: "translation (scale m v) = translation m"
  by (cases m; cases v) (auto)

lemma translation_rotateY: "translation (rotateY m a) = translation m"
  by (cases m) (simp add: Let_def)

lemma translation_orbit:
  "translation (translate (rotateY create a) (D, 0, 0)) = (D * cos a, 0, - (D * sin a))"
  by (simp add: create_def Let_def)

lemma translation_model:
  "translation (uModelMatrix (drawPlanet P t D sz col S R V)) = (D * cos (t * S), 0, - (D * sin (t * S)))"
  by (simp only: model_matrix translation_scale translation_rotateY translation_orbit)

lemma origin_image: "vFragPos (vertex_main m V P (0, 0, 0) n) = translation m"
  by (cases m) (simp add: vertex_main_def Let_def)

lemma circle_length:
  assumes "0 \<le> D"
  shows "vlength (D * cos a, 0, - (D * sin a)) = D"
proof -
  have unit: "(cos a)\<^sup>2 + (sin a)\<^sup>2 = (1::real)" by simp
  have "(D * cos a)\<^sup>2 + (D * sin a)\<^sup>2 = D\<^sup>2 * ((cos a)\<^sup>2 + (sin a)\<^sup>2)"
    by (simp only: power_mult_distrib distrib_left)
  also have "\<dots> = D\<^sup>2" by (simp only: unit mult_1_right)
  finally have sq: "(D * cos a)\<^sup>2 + (D * sin a)\<^sup>2 = D\<^sup>2" .
  have "dot (D * cos a, 0, - (D * sin a)) (D * cos a, 0, - (D * sin a))
          = (D * cos a)\<^sup>2 + (D * sin a)\<^sup>2"
    by (simp add: power2_eq_square)
  then have "dot (D * cos a, 0, - (D * sin a)) (D * cos a, 0, - (D * sin a)) = D\<^sup>2"
    by (simp only: sq)
  then show ?thesis using assms by (simp only: vlength_def real_sqrt_abs abs_of_nonneg)
qed

text \<open>
  C1. For a body drawn with orbit distance \<open>D \<ge> 0\<close> and orbital angular speed \<open>S\<close> at time
  \<open>t\<close>, the model transform that \<open>drawPlanet\<close> uploads sends the body's centre (the local
  origin, as the vertex stage transforms it) to the point \<open>(D cos (S t), 0, - D sin (S t))\<close>:
  it is at distance \<open>D\<close> from the world origin, and it is the reference point \<open>(D, 0, 0)\<close> on
  the X axis turned about Y by the angle \<open>S t\<close>, in the XZ plane. Self-rotation speed and
  size do not enter. (Exact real arithmetic.)
\<close>

theorem orbit_center:
  assumes "0 \<le> D"
  shows "(let model = uModelMatrix (drawPlanet P t D sz col S R V);
              center = vFragPos (vertex_main model V P (0, 0, 0) n)
          in center = (D * cos (S * t), 0, - (D * sin (S * t)))
           \<and> vlength center = D
           \<and> center = xyz (mat4_mul_vec4 (rotateY create (S * t)) (D, 0, 0, 1)))"
proof -
  have rot: "xyz (mat4_mul_vec4 (rotateY create (S * t)) (D, 0, 0, 1)) = (D * cos (S * t), 0, - (D * sin (S * t)))"
    by (simp add: create_def Let_def)
  show ?thesis
    unfolding Let_def origin_image translation_model rot
    using circle_length [OF assms, of "S * t"] by (simp add: mult.commute)
qed

theorem orbit_center_witness:
  "(0::real) \<le> 5
   \<and> vFragPos (vertex_main (uModelMatrix (drawPlanet create (pi / 2) 5 0.4 (0.7, 0.7, 0.7, 1.0) 2 3 create))
                create create (0, 0, 0) (0, 1, 0)) = (- 5, 0, 0)
   \<and> vlength (vFragPos (vertex_main (uModelMatrix (drawPlanet create (pi / 2) 5 0.4 (0.7, 0.7, 0.7, 1.0) 2 3 create))
                create create (0, 0, 0) (0, 1, 0))) = 5"
proof -
  have h: "(0::real) \<le> 5" by simp
  note oc = orbit_center [OF h, of create "pi / 2" "0.4" "(0.7, 0.7, 0.7, 1.0)" 2 3 create "(0, 1, 0)"]
  have a: "vFragPos (vertex_main (uModelMatrix (drawPlanet create (pi / 2) 5 0.4 (0.7, 0.7, 0.7, 1.0) 2 3 create))
                create create (0, 0, 0) (0, 1, 0)) = (- 5, 0, 0)"
    using oc unfolding Let_def by simp
  have b: "vlength (vFragPos (vertex_main (uModelMatrix (drawPlanet create (pi / 2) 5 0.4 (0.7, 0.7, 0.7, 1.0) 2 3 create))
                create create (0, 0, 0) (0, 1, 0))) = 5"
    using oc unfolding Let_def by blast
  from h a b show ?thesis by (intro conjI)
qed

lemma draws_render:
  "draws (snd (render P g)) =
     (let t = time g + 0.01;
          c = camera_movement (keys g) (camera g);
          view = translate (rotateY (rotateX create (pitch c)) (yaw c)) (- x c, - y c, - z c)
      in [drawPlanet P t 0 2.5 (1.0, 1.0, 0.0, 1.0) 0 0 view,
          drawPlanet P t 5 0.4 (0.7, 0.7, 0.7, 1.0) 1.2 3 view,
          drawPlanet P t 7 0.6 (0.9, 0.7, 0.3, 1.0) 1.0 2 view,
          drawPlanet P t 9 0.7 (0.2, 0.6, 1.0, 1.0) 0.8 2 view,
          drawPlanet P t 11 0.5 (1.0, 0.3, 0.3, 1.0) 0.7 2 view])"
  by (simp add: render_def Let_def)

lemma time_render: "time (fst (render P g)) = time g + 0.01"
  by (simp add: render_def Let_def)

lemma model_is_body_transform:
  "uModelMatrix (drawPlanet P t (orbitDistance b) (visualSize b) (body_color b)
                   (orbitAngularSpeed b) (selfRotationSpeed b) V) = body_transform t b"
  by (simp add: model_matrix body_transform_def)

lemma models_render:
  "map uModelMatrix (draws (snd (render P g)))
     = map (body_transform (time g + 0.01)) [Sun, Mercury, Venus, Earth, Mars]"
  using model_is_body_transform [of P "time g + 0.01" Sun]
    model_is_body_transform [of P "time g + 0.01" Mercury]
    model_is_body_transform [of P "time g + 0.01" Venus]
    model_is_body_transform [of P "time g + 0.01" Earth]
    model_is_body_transform [of P "time g + 0.01" Mars]
  by (simp add: draws_render Let_def Sun_def Mercury_def Venus_def Earth_def Mars_def)

lemma colors_render:
  "map uColor (draws (snd (render P g))) = map body_color [Sun, Mercury, Venus, Earth, Mars]"
  by (simp add: draws_render Let_def drawPlanet_def Sun_def Mercury_def Venus_def Earth_def Mars_def)

lemma translation_body_transform:
  "translation (body_transform t b)
     = (orbitDistance b * cos (t * orbitAngularSpeed b), 0, - (orbitDistance b * sin (t * orbitAngularSpeed b)))"
  by (simp only: body_transform_def translation_scale translation_rotateY translation_orbit)

lemma orbit_radius_body_transform:
  "0 \<le> orbitDistance b \<Longrightarrow> vlength (translation (body_transform t b)) = orbitDistance b"
  by (simp only: translation_body_transform circle_length)

lemma radii_render:
  "map (\<lambda>m. vlength (translation m)) (map (body_transform t) [Sun, Mercury, Venus, Earth, Mars])
     = [0, 5, 7, 9, 11]"
  using orbit_radius_body_transform [of Sun t] orbit_radius_body_transform [of Mercury t]
    orbit_radius_body_transform [of Venus t] orbit_radius_body_transform [of Earth t]
    orbit_radius_body_transform [of Mars t]
  by (simp add: Sun_def Mercury_def Venus_def Earth_def Mars_def)

lemma distinct_body_transforms:
  "distinct (map (body_transform t) [Sun, Mercury, Venus, Earth, Mars])"
proof -
  have "distinct (map (\<lambda>m. vlength (translation m)) (map (body_transform t) [Sun, Mercury, Venus, Earth, Mars]))"
    by (simp only: radii_render) simp
  then show ?thesis by (simp only: distinct_map)
qed

lemma sun_transform:
  "body_transform t Sun = Mat4 2.5 0 0 0  0 2.5 0 0  0 0 2.5 0  0 0 0 1"
  by (simp add: body_transform_def Sun_def create_def Let_def)

lemma scaled_identity: "scale create (2.5, 2.5, 2.5) = Mat4 2.5 0 0 0  0 2.5 0 0  0 0 2.5 0  0 0 0 1"
  by (simp add: create_def)

text \<open>
  C4. Every call of \<open>render\<close> advances the clock by 0.01 and issues exactly five draws
  (five \<open>drawElements\<close> calls), in the order Sun, Mercury, Venus, Earth, Mars; the model
  transform of each is the one the build order of the specification gives for that body at
  the new time, the five transforms are pairwise different, and the Sun's is the identity
  scaled by 2.5.
\<close>

theorem five_draws:
  "(let g' = fst (render P g);
        ds = draws (snd (render P g));
        ms = map uModelMatrix ds
    in time g' = time g + 0.01
     \<and> length ds = 5
     \<and> ms = map (body_transform (time g')) [Sun, Mercury, Venus, Earth, Mars]
     \<and> map uColor ds = map body_color [Sun, Mercury, Venus, Earth, Mars]
     \<and> distinct ms
     \<and> ms ! 0 = scale create (2.5, 2.5, 2.5)
     \<and> ms ! 0 = Mat4 2.5 0 0 0  0 2.5 0 0  0 0 2.5 0  0 0 0 1
     \<and> length (filter (\<lambda>s. s = Call ''drawElements'') render_calls) = 5)"
proof -
  have len: "length (draws (snd (render P g))) = 5"
    by (simp add: draws_render Let_def)
  have sun: "map uModelMatrix (draws (snd (render P g))) ! 0 = Mat4 2.5 0 0 0  0 2.5 0 0  0 0 2.5 0  0 0 0 1"
    by (simp add: models_render sun_transform)
  have calls: "length (filter (\<lambda>s. s = Call ''drawElements'') render_calls) = 5"
    by (simp add: render_calls_def drawPlanet_calls_def)
  show ?thesis
    unfolding Let_def time_render
    using len sun calls colors_render [of P g] distinct_body_transforms [of "time g + 0.01"]
    by (simp only: models_render scaled_identity simp_thms)
qed


section \<open>Properties of the fragment stage\<close>

text \<open>
  C7. For every colour, normal, light position, eye position and fragment position, the
  fragment stage writes \<open>rgb = 0.1 * color.rgb + max (N \<bullet> L) 0 * color.rgb + (max (V \<bullet> R) 0)^32 * (1, 1, 1)\<close>
  with \<open>N\<close> the normalised normal, \<open>L\<close> and \<open>V\<close> the normalised directions from the
  fragment to the light and to the eye, and \<open>R = reflect (- L) N\<close>; the alpha it writes is
  1 whatever the alpha of the colour. (Exact real arithmetic.)
\<close>

theorem fragment_phong:
  "(let N = normalize n;
        L = normalize (vsub lp fp);
        V = normalize (vsub vp fp);
        R = reflect (vneg L) N;
        diff = max (dot N L) 0;
        spec = (max (dot V R) 0) ^ 32
    in fragment_main n fp lp vp (cr, cg, cb, ca) =
         (0.1 * cr + diff * cr + spec, 0.1 * cg + diff * cg + spec, 0.1 * cb + diff * cb + spec, 1))"
  by (simp add: fragment_main_def Let_def pow_def)


section \<open>Properties of start-up\<close>

text \<open>With a context that has every method the script calls, the script runs to its end.\<close>

lemma exec_complete_context: "snd (exec (Some (\<lambda>m. True)) ss tr) = None"
proof (induction ss arbitrary: tr)
  case Nil
  show ?case by simp
next
  case (Cons s ss)
  show ?case by (cases s) (simp_all add: Cons.IH)
qed

lemma startup_with_context: "snd (startup (Some (\<lambda>m. True)) vs_compiled fs_compiled) = None"
  by (simp only: startup_def exec_complete_context)

text \<open>
  C8. If \<open>getContext\<close> returns \<open>null\<close>, the script shows the alert, sets the canvas size
  and then stops with a \<open>TypeError\<close> at its first use of \<open>gl\<close>: nothing reaches the graphics
  context (no shader, buffer or draw call), no listener is registered and no frame is
  requested, whatever the shaders would have compiled to.
\<close>

theorem no_context_is_fatal:
  "startup None vs_compiled fs_compiled
     = ([Alert ''WebGL not supported.'', CanvasResize, CanvasResize], Some TypeError)
   \<and> filter rendering_effect (fst (startup None vs_compiled fs_compiled)) = []"
  by (simp add: startup_def script_def)

end
